theory Spec2Isabelle
  imports Main "HOL-Library.Sublist"
begin

section \<open>Strings\<close>

text \<open>
  A JavaScript string is modelled as a \<^typ>\<open>string\<close> holding its UTF-8 bytes. Every
  separator and pattern the bot uses (space, comma, colon, double quote, the prefix
  \<open>!\<close>) is ASCII, so splitting, prefix and suffix tests on the bytes agree with the
  same operations on the UTF-16 code units of a well-formed string.
\<close>

text \<open>\<^verbatim>\<open>s.split(c)\<close> for a one-character separator: never empty, \<^verbatim>\<open>''.split(c) = ['']\<close>.\<close>

fun split :: "char \<Rightarrow> string \<Rightarrow> string list" where
  "split c [] = [[]]"
| "split c (x # xs) =
     (if x = c then [] # split c xs
      else (case split c xs of
              [] \<Rightarrow> [[x]]
            | y # ys \<Rightarrow> (x # y) # ys))"

text \<open>Array destructuring and indexing: an index past the end reads \<^verbatim>\<open>undefined\<close>.\<close>

fun nth_opt :: "'a list \<Rightarrow> nat \<Rightarrow> 'a option" where
  "nth_opt [] n = None"
| "nth_opt (x # xs) 0 = Some x"
| "nth_opt (x # xs) (Suc n) = nth_opt xs n"

definition startsWith :: "string \<Rightarrow> string \<Rightarrow> bool" where
  "startsWith s p = prefix p s"

definition endsWith :: "string \<Rightarrow> string \<Rightarrow> bool" where
  "endsWith s p = suffix p s"

text \<open>
  White space as \<^verbatim>\<open>String.prototype.trim\<close> and \<^verbatim>\<open>Number\<close> see it (ECMAScript WhiteSpace
  and LineTerminator), each code point as its UTF-8 bytes: TAB, LF, VT, FF, CR, SP,
  U+00A0, U+1680, U+2000 to U+200A, U+2028, U+2029, U+202F, U+205F, U+3000, U+FEFF.
\<close>

definition whiteSpace :: "string list" where
  "whiteSpace =
     map (\<lambda>c. [c]) [CHR 0x09, CHR 0x0A, CHR 0x0B, CHR 0x0C, CHR 0x0D, CHR 0x20]
     @ [[CHR 0xC2, CHR 0xA0], [CHR 0xE1, CHR 0x9A, CHR 0x80]]
     @ map (\<lambda>c. [CHR 0xE2, CHR 0x80, c])
         [CHR 0x80, CHR 0x81, CHR 0x82, CHR 0x83, CHR 0x84, CHR 0x85, CHR 0x86, CHR 0x87,
          CHR 0x88, CHR 0x89, CHR 0x8A, CHR 0xA8, CHR 0xA9, CHR 0xAF]
     @ [[CHR 0xE2, CHR 0x81, CHR 0x9F], [CHR 0xE3, CHR 0x80, CHR 0x80],
        [CHR 0xEF, CHR 0xBB, CHR 0xBF]]"

text \<open>Drop from the front of \<open>s\<close> every leading occurrence of one of the sequences \<open>ws\<close>.\<close>

function dropLeading :: "string list \<Rightarrow> string \<Rightarrow> string" where
  "dropLeading ws s =
     (case find (\<lambda>w. w \<noteq> [] \<and> prefix w s) ws of
        None \<Rightarrow> s
      | Some w \<Rightarrow> dropLeading ws (drop (length w) s))"
  by pat_completeness auto
termination
proof (relation "measure (\<lambda>(ws, s). length s)")
  show "wf (measure (\<lambda>(ws, s). length s))" by simp
next
  fix ws :: "string list" and s w :: string
  assume "find (\<lambda>w. w \<noteq> [] \<and> prefix w s) ws = Some w"
  then have "w \<noteq> []" and "prefix w s"
    by (auto simp: find_Some_iff)
  then have "s \<noteq> []" by auto
  with \<open>w \<noteq> []\<close> show "((ws, drop (length w) s), (ws, s)) \<in> measure (\<lambda>(ws, s). length s)"
    by simp
qed

declare dropLeading.simps [simp del]

definition trim :: "string \<Rightarrow> string" where
  "trim s = rev (dropLeading (map rev whiteSpace) (rev (dropLeading whiteSpace s)))"

section \<open>Numbers\<close>

text \<open>
  A JavaScript number is an IEEE 754 binary64 value. \<open>Fin m e\<close> is the finite value
  \<open>m * 2 ^ e\<close>, kept with \<open>m\<close> odd, and zero as \<open>Fin 0 0\<close>; the sign of zero is not
  kept (the bot only prints numbers, and \<open>-0\<close> prints as \<open>0\<close>, and only divides by
  powers of ten, which are never \<open>-0\<close>).
\<close>

datatype number = NaN | PosInf | NegInf | Fin int int

function norm2 :: "int \<Rightarrow> int \<Rightarrow> int \<times> int" where
  "norm2 m e = (if m = 0 then (0, 0) else if even m then norm2 (m div 2) (e + 1) else (m, e))"
  by pat_completeness auto
termination
  by (relation "measure (\<lambda>(m, e). nat \<bar>m\<bar>)") auto

declare norm2.simps [simp del]

text \<open>The number of binary digits of a positive integer.\<close>

function bitlen :: "int \<Rightarrow> int" where
  "bitlen n = (if n \<le> 0 then 0 else 1 + bitlen (n div 2))"
  by pat_completeness auto
termination
  by (relation "measure nat") auto

declare bitlen.simps [simp del]

text \<open>\<open>\<lfloor>log\<^sub>2 (p / d)\<rfloor>\<close> for positive \<open>p\<close> and \<open>d\<close>.\<close>

definition ilog2 :: "int \<Rightarrow> int \<Rightarrow> int" where
  "ilog2 p d =
     (let e = bitlen p - bitlen d
      in if (if 0 \<le> e then d * 2 ^ nat e \<le> p else d \<le> p * 2 ^ nat (- e)) then e else e - 1)"

text \<open>The integer nearest to \<open>p / d\<close>, a tie going to the even one.\<close>

definition roundHalfEven :: "int \<Rightarrow> int \<Rightarrow> int" where
  "roundHalfEven p d =
     (let f = p div d; r = p mod d
      in if 2 * r < d then f else if d < 2 * r then f + 1 else if even f then f else f + 1)"

text \<open>
  The binary64 value nearest to \<open>p / d\<close> (\<open>p \<ge> 0\<close>, \<open>d > 0\<close>), negated when \<open>neg\<close>:
  53 significant bits, exponents from \<open>-1022\<close> (below that the spacing stays \<open>2 ^ -1074\<close>),
  round to nearest with ties to even, and infinity once the rounded value \<open>m * 2 ^ t\<close>
  reaches \<open>2 ^ 1024\<close>, that is \<open>2 ^ 53 * 2 ^ 971\<close> (\<open>m\<close> is at most \<open>2 ^ 53 = 9007199254740992\<close>).
\<close>

definition rnd64 :: "bool \<Rightarrow> int \<Rightarrow> int \<Rightarrow> number" where
  "rnd64 neg p d =
     (if p = 0 then Fin 0 0
      else
        let e = max (ilog2 p d) (- 1022);
            t = e - 52;
            m = (if 0 \<le> t then roundHalfEven p (d * 2 ^ nat t)
                 else roundHalfEven (p * 2 ^ nat (- t)) d)
        in if 971 < t \<or> (t = 971 \<and> m = 9007199254740992) then (if neg then NegInf else PosInf)
           else (case norm2 (if neg then - m else m) t of (m', e') \<Rightarrow> Fin m' e'))"

text \<open>\<open>s * 10 ^ j\<close> as a number.\<close>

definition fromDecimal :: "bool \<Rightarrow> int \<Rightarrow> int \<Rightarrow> number" where
  "fromDecimal neg s j =
     (if 0 \<le> j then rnd64 neg (s * 10 ^ nat j) 1 else rnd64 neg s (10 ^ nat (- j)))"

subsection \<open>\<^verbatim>\<open>Number(string)\<close>\<close>

definition digitVal :: "char \<Rightarrow> int" where
  "digitVal c =
     (let n = (of_char c :: int)
      in if 48 \<le> n \<and> n \<le> 57 then n - 48
         else if 97 \<le> n \<and> n \<le> 102 then n - 87
         else if 65 \<le> n \<and> n \<le> 70 then n - 55
         else 36)"

definition isDigitOf :: "int \<Rightarrow> char \<Rightarrow> bool" where
  "isDigitOf b c \<longleftrightarrow> digitVal c < b"

definition digitsVal :: "int \<Rightarrow> string \<Rightarrow> int" where
  "digitsVal b ds = foldl (\<lambda>a c. a * b + digitVal c) 0 ds"

text \<open>\<^verbatim>\<open>0x\<close>, \<^verbatim>\<open>0o\<close> and \<^verbatim>\<open>0b\<close> literals: no sign, at least one digit.\<close>

definition nonDecimalLiteral :: "string \<Rightarrow> int option" where
  "nonDecimalLiteral s =
     (case s of
        z # c # ds \<Rightarrow>
          (let b = (if c = CHR ''x'' \<or> c = CHR ''X'' then 16
                    else if c = CHR ''o'' \<or> c = CHR ''O'' then 8
                    else if c = CHR ''b'' \<or> c = CHR ''B'' then 2
                    else (0::int))
           in if z = CHR ''0'' \<and> b \<noteq> 0 \<and> ds \<noteq> [] \<and> list_all (isDigitOf b) ds
              then Some (digitsVal b ds) else None)
      | _ \<Rightarrow> None)"

text \<open>An optional exponent part \<^verbatim>\<open>e\<close>, sign, digits at the end of a decimal literal.\<close>

definition exponentPart :: "string \<Rightarrow> int option" where
  "exponentPart r =
     (case r of
        [] \<Rightarrow> Some 0
      | c # t \<Rightarrow>
          if c = CHR ''e'' \<or> c = CHR ''E'' then
            (let ds = (if take 1 t = ''-'' \<or> take 1 t = ''+'' then drop 1 t else t)
             in if ds \<noteq> [] \<and> list_all (isDigitOf 10) ds
                then Some (if take 1 t = ''-'' then - digitsVal 10 ds else digitsVal 10 ds)
                else None)
          else None)"

text \<open>
  An unsigned decimal literal (digits, an optional point and fraction digits, at least
  one digit in all, an optional exponent) as \<open>(v, k)\<close>, its value being \<open>v * 10 ^ k\<close>.
\<close>

definition decimalLiteral :: "string \<Rightarrow> (int \<times> int) option" where
  "decimalLiteral u =
     (let ip = takeWhile (isDigitOf 10) u;
          r1 = dropWhile (isDigitOf 10) u;
          pt = (take 1 r1 = ''.'');
          fp = (if pt then takeWhile (isDigitOf 10) (drop 1 r1) else []);
          r2 = (if pt then dropWhile (isDigitOf 10) (drop 1 r1) else r1)
      in if ip = [] \<and> fp = [] then None
         else (case exponentPart r2 of
                 None \<Rightarrow> None
               | Some ex \<Rightarrow> Some (digitsVal 10 (ip @ fp), ex - int (length fp))))"

text \<open>
  \<^verbatim>\<open>Number(str)\<close> (ECMAScript StringToNumber): white space around the literal is dropped,
  the empty string is \<open>0\<close>, anything that is not a numeric literal is \<open>NaN\<close>.
\<close>

definition StringToNumber :: "string \<Rightarrow> number" where
  "StringToNumber str =
     (let s = trim str
      in if s = [] then Fin 0 0
         else (case nonDecimalLiteral s of
                 Some v \<Rightarrow> rnd64 False v 1
               | None \<Rightarrow>
                   (let neg = (take 1 s = ''-'');
                        u = (if take 1 s = ''-'' \<or> take 1 s = ''+'' then drop 1 s else s)
                    in if u = ''Infinity'' then (if neg then NegInf else PosInf)
                       else (case decimalLiteral u of
                               None \<Rightarrow> NaN
                             | Some (v, k) \<Rightarrow> fromDecimal neg v k))))"

subsection \<open>Division\<close>

text \<open>
  \<^verbatim>\<open>x / y\<close>. A zero divisor counts as \<open>+0\<close>. Finite operands give the exact quotient
  \<open>(m1 * 2 ^ e1) / (m2 * 2 ^ e2)\<close>, rounded.
\<close>

fun divideNumbers :: "number \<Rightarrow> number \<Rightarrow> number" where
  "divideNumbers NaN y = NaN"
| "divideNumbers x NaN = NaN"
| "divideNumbers (Fin m1 e1) (Fin m2 e2) =
     (if m2 = 0 then (if m1 = 0 then NaN else if 0 < m1 then PosInf else NegInf)
      else if e2 \<le> e1 then rnd64 ((m1 < 0) \<noteq> (m2 < 0)) (\<bar>m1\<bar> * 2 ^ nat (e1 - e2)) \<bar>m2\<bar>
      else rnd64 ((m1 < 0) \<noteq> (m2 < 0)) \<bar>m1\<bar> (\<bar>m2\<bar> * 2 ^ nat (e2 - e1)))"
| "divideNumbers (Fin m1 e1) y = Fin 0 0"
| "divideNumbers x (Fin m2 e2) = (if (x = NegInf) \<noteq> (m2 < 0) then NegInf else PosInf)"
| "divideNumbers x y = NaN"


subsection \<open>Numbers in template literals\<close>

definition digitChar :: "int \<Rightarrow> char" where
  "digitChar d = char_of (48 + d)"

function natDigits :: "int \<Rightarrow> string" where
  "natDigits n = (if n < 10 then [digitChar n] else natDigits (n div 10) @ [digitChar (n mod 10)])"
  by pat_completeness auto
termination
  by (relation "measure nat") auto

declare natDigits.simps [simp del]

text \<open>The \<open>n\<close> with \<open>10 ^ (n - 1) \<le> p / d < 10 ^ n\<close>, for positive \<open>p\<close> and \<open>d\<close>.\<close>

definition decimalExponent :: "int \<Rightarrow> int \<Rightarrow> int" where
  "decimalExponent p d =
     (let e = int (length (natDigits p)) - int (length (natDigits d))
      in if (if 0 \<le> e then d * 10 ^ nat e \<le> p else d \<le> p * 10 ^ nat (- e)) then e + 1 else e)"

text \<open>
  The candidates with \<open>k\<close> digits for the value \<open>x = p / d\<close> whose decimal exponent is \<open>n\<close>:
  \<open>lo = \<lfloor>x / 10 ^ (n - k)\<rfloor>\<close> and \<open>lo + 1\<close>. \<open>nearer\<close> is the one nearer to \<open>x\<close>, the
  even one at a tie.
\<close>

definition lowDigits :: "int \<Rightarrow> int \<Rightarrow> int \<Rightarrow> int" where
  "lowDigits p d j = (if 0 \<le> j then p div (d * 10 ^ nat j) else (p * 10 ^ nat (- j)) div d)"

definition nearer :: "int \<Rightarrow> int \<Rightarrow> int \<Rightarrow> int \<Rightarrow> int" where
  "nearer p d j lo =
     (let l = (if 0 \<le> j then 2 * p else 2 * p * 10 ^ nat (- j));
          r = (if 0 \<le> j then (2 * lo + 1) * 10 ^ nat j * d else (2 * lo + 1) * d)
      in if l < r then lo else if r < l then lo + 1 else if even lo then lo else lo + 1)"

text \<open>
  The digits \<open>s\<close> and their number \<open>k\<close> of Number::toString: the least \<open>k\<close> for which
  some \<open>s * 10 ^ (n - k)\<close> with \<open>k\<close> digits reads back as \<open>x\<close>, and among those \<open>s\<close> the
  nearest to \<open>x\<close>. Seventeen digits identify every binary64 value, so the search stops
  there with the nearest candidate.
\<close>

fun shortest :: "number \<Rightarrow> int \<Rightarrow> int \<Rightarrow> int \<Rightarrow> nat \<Rightarrow> int \<Rightarrow> int \<times> int" where
  "shortest x p d n 0 k = (nearer p d (n - k) (lowDigits p d (n - k)), k)"
| "shortest x p d n (Suc fuel) k =
     (let j = n - k;
          lo = lowDigits p d j;
          okLo = (fromDecimal False lo j = x);
          okHi = (fromDecimal False (lo + 1) j = x)
      in if okLo \<and> okHi then (nearer p d j lo, k)
         else if okLo then (lo, k)
         else if okHi then (lo + 1, k)
         else shortest x p d n fuel (k + 1))"

text \<open>
  Number::toString of the positive value \<open>m * 2 ^ e\<close>, by the four layouts of the
  standard: an integer with trailing zeros, a decimal point inside the digits, a leading
  \<open>0.\<close>, exponent notation.
\<close>

definition positiveToString :: "int \<Rightarrow> int \<Rightarrow> string" where
  "positiveToString m e =
     (let p = (if 0 \<le> e then m * 2 ^ nat e else m);
          d = (if 0 \<le> e then 1 else 2 ^ nat (- e));
          n0 = decimalExponent p d;
          (s0, k) = shortest (Fin m e) p d n0 16 1;
          s = (if s0 = 10 ^ nat k then 10 ^ nat (k - 1) else s0);
          n = (if s0 = 10 ^ nat k then n0 + 1 else n0);
          ds = natDigits s
      in if k \<le> n \<and> n \<le> 21 then ds @ replicate (nat (n - k)) CHR ''0''
         else if 0 < n \<and> n \<le> 21 then take (nat n) ds @ ''.'' @ drop (nat n) ds
         else if - 6 < n \<and> n \<le> 0 then ''0.'' @ replicate (nat (- n)) CHR ''0'' @ ds
         else
           (let ex = (if n - 1 < 0 then ''-'' else ''+'') @ natDigits \<bar>n - 1\<bar>
            in if k = 1 then ds @ ''e'' @ ex
               else take 1 ds @ ''.'' @ drop 1 ds @ ''e'' @ ex))"

text \<open>A number inside a template literal: \<^verbatim>\<open>`${x}`\<close>.\<close>

fun NumberToString :: "number \<Rightarrow> string" where
  "NumberToString NaN = ''NaN''"
| "NumberToString PosInf = ''Infinity''"
| "NumberToString NegInf = ''-Infinity''"
| "NumberToString (Fin m e) =
     (if m = 0 then ''0''
      else if m < 0 then ''-'' @ positiveToString (- m) e
      else positiveToString m e)"

section \<open>Configuration\<close>

text \<open>
  The values index.ts reads from the environment at start-up (lines 49-57).
  \<^verbatim>\<open>NETWORK_DECIMALS\<close> is typed \<^verbatim>\<open>number\<close> in the source and is a count of decimal places;
  the model takes an integer.
\<close>

record config =
  botUserId :: string
  decimals :: int
  unit :: string
  defaultDripAmount :: number
  FAUCET_IGNORE_LIST :: string

definition quote :: char where
  "quote = CHR 0x22"

text \<open>
  \<^verbatim>\<open>ignoreList\<close> (lines 55-57): the value of \<^verbatim>\<open>FAUCET_IGNORE_LIST\<close> split at commas;
  \<^verbatim>\<open>item.replace('"', '')\<close> with a string pattern replaces the first occurrence only.
\<close>

definition ignoreList :: "string \<Rightarrow> string list" where
  "ignoreList v = map (remove1 quote) (split CHR '','' v)"

section \<open>Events, environment and effects\<close>

text \<open>
  A timeline event as the handler reads it: \<^verbatim>\<open>getType()\<close>, \<^verbatim>\<open>getSender()\<close> (possibly
  undefined), \<^verbatim>\<open>getRoomId()\<close> and the \<^verbatim>\<open>body\<close> of \<^verbatim>\<open>getContent()\<close>, \<open>None\<close> when the
  content has no string body.
\<close>

record MatrixEvent =
  getType :: string
  getSender :: "string option"
  getRoomId :: string
  body :: "string option"

text \<open>A property of a JSON object: missing, \<^verbatim>\<open>null\<close>, or a value.\<close>

datatype 'a field = Absent | Null | Val 'a

text \<open>
  Modelled from the spec: the types \<^verbatim>\<open>BalanceResponse\<close> and \<^verbatim>\<open>DripResponse\<close> of
  \<^verbatim>\<open>../types\<close>, which is not among the sources: \<^verbatim>\<open>{ balance: string|number }\<close> and
  \<^verbatim>\<open>{ hash?: string, error?: string }\<close>, where a hash can also be \<^verbatim>\<open>null\<close>.
\<close>

datatype balanceValue = Str string | Num number

record BalanceResponse =
  balance :: balanceValue

record DripResponse =
  hash :: "string field"
  error :: "string field"

text \<open>The body of the POST to \<^verbatim>\<open>/bot-endpoint\<close> (lines 176-181).\<close>

record DripRequest =
  address :: string
  amount :: number
  parachain_id :: string
  sender :: string

text \<open>
  An axios promise. \<open>Fulfilled r\<close>: the request succeeded and \<^verbatim>\<open>res.data\<close> is the object
  \<open>r\<close> of the declared type. \<open>NoData m\<close>: the request succeeded and \<^verbatim>\<open>res.data\<close> is
  \<^verbatim>\<open>null\<close> or \<^verbatim>\<open>undefined\<close>, so that the \<^verbatim>\<open>then\<close> callback throws a \<^verbatim>\<open>TypeError\<close> when
  it reads a property of it; \<open>m\<close> is the message the engine gives that error.
  \<open>Rejected e\<close>: the request failed with an error whose message is \<open>e\<close> (empty when there
  is none).
\<close>

datatype 'a promise = Fulfilled 'a | NoData string | Rejected string

text \<open>
  What the handler uses from outside this file: \<^verbatim>\<open>decodeAddress\<close> of
  \<^verbatim>\<open>@polkadot/keyring\<close> (\<open>True\<close> when it returns, \<open>False\<close> when it throws; the decoded
  bytes are not used), the faucet backend behind axios, and the engine's \<^verbatim>\<open>10 ** d\<close>
  where the standard does not fix its value.
\<close>

record environment =
  decodeAddress :: "string \<Rightarrow> bool"
  getBalance :: "BalanceResponse promise"
  postDrip :: "DripRequest \<Rightarrow> DripResponse promise"
  tenToThe :: "int \<Rightarrow> number"

text \<open>
  \<^verbatim>\<open>10 ** d\<close> for an integer \<open>d\<close>. From \<open>10 ^ 0\<close> to \<open>10 ^ 22\<close> the power is a binary64
  value and is the result. Elsewhere the standard leaves the accuracy of \<^verbatim>\<open>**\<close> to the
  implementation, and the result is whatever the engine computes.
\<close>

definition pow10 :: "environment \<Rightarrow> int \<Rightarrow> number" where
  "pow10 env d = (if 0 \<le> d \<and> d \<le> 22 then fromDecimal False 1 d else tenToThe env d)"

text \<open>
  What the handler does to the outside, in order: logger calls (for \<^verbatim>\<open>logger.error\<close> with
  an exception, the exception's message as a second component), HTTP requests and
  \<^verbatim>\<open>bot.sendEvent\<close> of an \<^verbatim>\<open>m.room.message\<close> with \<^verbatim>\<open>msgtype m.text\<close>.
\<close>

datatype level = Debug | Info | Warn | Error

datatype effect =
    Log level string "string option"
  | HttpGet string
  | HttpPost string DripRequest
  | SendEvent string string

datatype completion = Returned | TypeError

section \<open>The bot\<close>

text \<open>
  \<^verbatim>\<open>sendMessage\<close> (lines 77-89): one \<^verbatim>\<open>bot.sendEvent\<close>. What the chat client answers is
  only logged, and is not followed further.
\<close>

definition sendMessage :: "string \<Rightarrow> string \<Rightarrow> effect list" where
  "sendMessage roomId msg = [SendEvent roomId msg]"

text \<open>\<^verbatim>\<open>printHelpMessage\<close> (lines 91-98); the template literal spans four lines.\<close>

definition helpText :: "config \<Rightarrow> string" where
  "helpText cfg =
     ''The following commands are supported:'' @ [CHR 0x0A]
     @ ''!balance - Get the faucet'' @ [CHR 0x27] @ ''s balance.'' @ [CHR 0x0A]
     @ ''!drip <Address>[:ParachainId] - Send '' @ unit cfg
     @ ''s to <Address>, if the optional suffix `:SomeParachainId` is given a teleport will be issued.''
     @ [CHR 0x0A]
     @ ''!help - Print this message''"

definition printHelpMessage :: "config \<Rightarrow> string \<Rightarrow> string \<Rightarrow> effect list" where
  "printHelpMessage cfg roomId message =
     sendMessage roomId ((if message \<noteq> [] then message @ '' - '' else []) @ helpText cfg)"

text \<open>The two emoji that open log messages, as UTF-8: U+1F3F4 U+200D U+2620 U+FE0F and U+2B55.\<close>

definition pirateFlag :: string where
  "pirateFlag = [CHR 0xF0, CHR 0x9F, CHR 0x8F, CHR 0xB4, CHR 0xE2, CHR 0x80, CHR 0x8D,
                 CHR 0xE2, CHR 0x98, CHR 0xA0, CHR 0xEF, CHR 0xB8, CHR 0x8F]"

definition redCircle :: string where
  "redCircle = [CHR 0xE2, CHR 0xAD, CHR 0x95]"

definition fallbackMessage :: string where
  "fallbackMessage = ''An unexpected error occured, please check the server logs''"

subsection \<open>\<^verbatim>\<open>!balance\<close> (lines 137-150)\<close>

fun toNumber :: "balanceValue \<Rightarrow> number" where
  "toNumber (Str s) = StringToNumber s"
| "toNumber (Num n) = n"

text \<open>The \<^verbatim>\<open>then\<close> callback (lines 139-146), for data that is an object.\<close>

definition balanceThen ::
  "config \<Rightarrow> environment \<Rightarrow> string \<Rightarrow> BalanceResponse \<Rightarrow> effect list" where
  "balanceThen cfg env roomId res =
     (let bal = toNumber (balance res)
      in sendMessage roomId
           (''The faucet has ''
            @ NumberToString (divideNumbers bal (pow10 env (decimals cfg)))
            @ '' '' @ unit cfg @ ''s remaining.''))"

text \<open>The \<^verbatim>\<open>catch\<close> callback (lines 147-150).\<close>

definition balanceCatch :: "string \<Rightarrow> string \<Rightarrow> effect list" where
  "balanceCatch roomId e =
     sendMessage roomId ''An error occured, please check the server logs.''
     @ [Log Error (redCircle @ '' An error occured when checking the balance'') (Some e)]"

text \<open>
  \<^verbatim>\<open>ax.get(...).then(...).catch(...)\<close>: the \<^verbatim>\<open>catch\<close> is chained after the \<^verbatim>\<open>then\<close>, so it
  runs for a failed request and also for what the \<^verbatim>\<open>then\<close> callback throws. With no
  data the callback throws at \<^verbatim>\<open>res.data.balance\<close> (line 140), before it sends anything.
\<close>

definition balanceCommand :: "config \<Rightarrow> environment \<Rightarrow> string \<Rightarrow> effect list" where
  "balanceCommand cfg env roomId =
     HttpGet ''/balance''
     # (case getBalance env of
          Fulfilled res \<Rightarrow> balanceThen cfg env roomId res
        | NoData m \<Rightarrow> balanceCatch roomId m
        | Rejected e \<Rightarrow> balanceCatch roomId e)"

subsection \<open>\<^verbatim>\<open>!drip\<close> (lines 151-198)\<close>

text \<open>
  Modelled from the spec: \<^verbatim>\<open>isDripSuccessResponse\<close> of \<^verbatim>\<open>../guards\<close>, which is not among
  the sources. The spec discriminates a drip response "by presence/absence of a
  non-empty hash", and the handler's comment reads "if hash is null or empty, something
  went wrong".
\<close>

definition isDripSuccessResponse :: "DripResponse \<Rightarrow> bool" where
  "isDripSuccessResponse res = (case hash res of Val h \<Rightarrow> h \<noteq> [] | _ \<Rightarrow> False)"

text \<open>A string property inside a template literal.\<close>

fun fieldToString :: "string field \<Rightarrow> string" where
  "fieldToString Absent = ''undefined''"
| "fieldToString Null = ''null''"
| "fieldToString (Val v) = v"

text \<open>\<^verbatim>\<open>x || fallback\<close> for a string property: the empty string is falsy.\<close>

fun orElse :: "string field \<Rightarrow> string \<Rightarrow> string" where
  "orElse (Val v) d = (if v \<noteq> [] then v else d)"
| "orElse x d = d"

definition dripThen :: "config \<Rightarrow> string \<Rightarrow> string \<Rightarrow> number \<Rightarrow> DripResponse \<Rightarrow> effect list" where
  "dripThen cfg roomId sndr dripAmount res =
     sendMessage roomId
       (if isDripSuccessResponse res
        then ''Sent '' @ sndr @ '' '' @ NumberToString dripAmount @ '' '' @ unit cfg
             @ ''s. Extrinsic hash: '' @ fieldToString (hash res)
        else orElse (error res) fallbackMessage)"

definition dripCatch :: "string \<Rightarrow> string \<Rightarrow> effect list" where
  "dripCatch roomId e =
     sendMessage roomId (if e \<noteq> [] then e else fallbackMessage)
     @ [Log Error (redCircle @ '' An error occured when dripping'') (Some e)]"

text \<open>
  The amount of a drip (lines 134 and 171-174): the configured default, unless the sender
  is a Parity user and gave a third token that is truthy, which then goes through
  \<^verbatim>\<open>Number\<close> unchecked.
\<close>

definition dripAmountOf :: "config \<Rightarrow> string \<Rightarrow> string option \<Rightarrow> number" where
  "dripAmountOf cfg sndr arg1 =
     (case arg1 of
        Some a1 \<Rightarrow>
          if endsWith sndr '':matrix.parity.io'' \<and> a1 \<noteq> []
          then StringToNumber a1 else defaultDripAmount cfg
      | None \<Rightarrow> defaultDripAmount cfg)"

text \<open>
  \<^verbatim>\<open>arg0_processed[0]\<close> is always there: \<^verbatim>\<open>split\<close> never returns the empty array
  (\<open>split_not_Nil\<close> below), so the \<open>[]\<close> case of \<open>addr\<close> is never taken. As for
  \<^verbatim>\<open>!balance\<close>, the \<^verbatim>\<open>catch\<close> is chained after the \<^verbatim>\<open>then\<close>: with no data the callback
  throws while it builds the message (lines 184-187), before it sends anything, and the
  \<^verbatim>\<open>catch\<close> callback replies with the message of that error.
\<close>

definition dripCommand ::
  "config \<Rightarrow> environment \<Rightarrow> string \<Rightarrow> string \<Rightarrow> string option \<Rightarrow> string option \<Rightarrow> effect list" where
  "dripCommand cfg env roomId sndr arg0 arg1 =
     (case arg0 of
        None \<Rightarrow> [Log Warn ''Address not provided, skipping'' None]
      | Some a0 \<Rightarrow>
          if a0 = [] then [Log Warn ''Address not provided, skipping'' None]
          else
            let arg0_processed = split CHR '':'' (trim a0);
                addr = (case arg0_processed of a # _ \<Rightarrow> a | [] \<Rightarrow> []);
                chain = (case nth_opt arg0_processed 1 of
                           Some c \<Rightarrow> if c \<noteq> [] then c else []
                         | None \<Rightarrow> [])
            in Log Debug (''Processed receiver to address '' @ addr @ '' and parachain id ''
                          @ chain) None
               # (if \<not> decodeAddress env addr
                  then sendMessage roomId (sndr @ '' provided an incompatible address.'')
                  else
                    let dripAmount = dripAmountOf cfg sndr arg1;
                        req = \<lparr>address = addr, amount = dripAmount,
                               parachain_id = chain, sender = sndr\<rparr>
                    in HttpPost ''/bot-endpoint'' req
                       # (case postDrip env req of
                            Fulfilled res \<Rightarrow> dripThen cfg roomId sndr dripAmount res
                          | NoData m \<Rightarrow> dripCatch roomId m
                          | Rejected e \<Rightarrow> dripCatch roomId e)))"

subsection \<open>The \<^verbatim>\<open>Room.timeline\<close> handler (lines 111-204)\<close>

text \<open>
  The branch on the first token (lines 137-203). With no first token at all \<^verbatim>\<open>action\<close>
  would be \<^verbatim>\<open>undefined\<close> and \<^verbatim>\<open>action.startsWith\<close> would throw.
\<close>

definition command ::
  "config \<Rightarrow> environment \<Rightarrow> string \<Rightarrow> string \<Rightarrow> string list \<Rightarrow> effect list \<times> completion" where
  "command cfg env roomId sndr toks =
     (case toks of
        [] \<Rightarrow> ([], TypeError)
      | action # _ \<Rightarrow>
          (let arg0 = nth_opt toks 1; arg1 = nth_opt toks 2
           in if action = ''!balance'' then (balanceCommand cfg env roomId, Returned)
              else if action = ''!drip''
              then (dripCommand cfg env roomId sndr arg0 arg1, Returned)
              else if action = ''!help'' then (printHelpMessage cfg roomId [], Returned)
              else if startsWith action ''!''
              then (printHelpMessage cfg roomId ''Unknown command'', Returned)
              else ([], Returned)))"

text \<open>
  The filters (lines 116-130), the debug line, and the split of the body, which throws a
  \<^verbatim>\<open>TypeError\<close> when the content has no string body.
\<close>

definition onRoomTimeline :: "config \<Rightarrow> environment \<Rightarrow> MatrixEvent \<Rightarrow> effect list \<times> completion" where
  "onRoomTimeline cfg env event =
     (if getType event \<noteq> ''m.room.message'' then ([], Returned)
      else
        (case getSender event of
           None \<Rightarrow> ([], Returned)
         | Some sndr \<Rightarrow>
             if sndr = [] \<or> sndr = botUserId cfg then ([], Returned)
             else if sndr \<in> set (ignoreList (FAUCET_IGNORE_LIST cfg))
             then ([Log Warn (pirateFlag @ '' Ignored request from an ignored account: '' @ sndr)
                      None], Returned)
             else
               (case body event of
                  None \<Rightarrow> ([Log Debug (''Processing request from '' @ sndr) None], TypeError)
                | Some b \<Rightarrow>
                    (case command cfg env (getRoomId event) sndr (split CHR '' '' b) of
                       (effs, c) \<Rightarrow>
                         (Log Debug (''Processing request from '' @ sndr) None # effs, c)))))"

section \<open>Observing a run\<close>

text \<open>
  The chat messages of a run, as pairs of room and text, and its HTTP requests, both in
  the order they were issued.
\<close>

fun replies :: "effect list \<Rightarrow> (string \<times> string) list" where
  "replies [] = []"
| "replies (SendEvent roomId msg # es) = (roomId, msg) # replies es"
| "replies (e # es) = replies es"

fun requests :: "effect list \<Rightarrow> effect list" where
  "requests [] = []"
| "requests (HttpGet url # es) = HttpGet url # requests es"
| "requests (HttpPost url req # es) = HttpPost url req # requests es"
| "requests (e # es) = requests es"

section \<open>Example inputs\<close>

text \<open>A configuration with the defaults of index.ts (lines 17-45) and one ignored account.\<close>

definition exampleConfig :: config where
  "exampleConfig =
     \<lparr>botUserId = ''@faucet:matrix.org'', decimals = 12, unit = ''UNIT'',
      defaultDripAmount = Fin 1 (- 1), FAUCET_IGNORE_LIST = ''@spam:matrix.org''\<rparr>"

text \<open>
  An environment that decodes one address, answers every request with \<open>bal\<close> and \<open>drip\<close>,
  and computes powers of ten to the nearest binary64 value.
\<close>

definition exampleBackend ::
  "BalanceResponse promise \<Rightarrow> DripResponse promise \<Rightarrow> environment" where
  "exampleBackend bal drip =
     \<lparr>decodeAddress = (\<lambda>a. a = ''5GrwvaEF5zXb26Fz9rcQpDWS57CtERHpNehXCPcNoHGKutQY''),
      getBalance = bal,
      postDrip = (\<lambda>req. drip),
      tenToThe = fromDecimal False 1\<rparr>"


text \<open>The same configuration with the identifier of the bot added to the ignore list.\<close>

definition selfIgnoringConfig :: config where
  "selfIgnoringConfig =
     exampleConfig\<lparr>FAUCET_IGNORE_LIST := ''@spam:matrix.org,@faucet:matrix.org''\<rparr>"

text \<open>A text message \<open>b\<close> from \<open>sndr\<close>.\<close>

definition message :: "string \<Rightarrow> string \<Rightarrow> MatrixEvent" where
  "message sndr b =
     \<lparr>getType = ''m.room.message'', getSender = Some sndr, getRoomId = ''!room:matrix.org'',
      body = Some b\<rparr>"

section \<open>Facts about splitting\<close>

lemma split_not_Nil: "split c s \<noteq> []"
  by (induction s) (auto split: list.splits)

lemma split_no_separator: "c \<notin> set s \<Longrightarrow> split c s = [s]"
  by (induction s) auto

lemma split_at_separator: "c \<notin> set a \<Longrightarrow> split c (a @ c # p) = a # split c p"
  by (induction a) auto

lemma remove1_first_occurrence:
  "remove1 c s = takeWhile (\<lambda>x. x \<noteq> c) s @ drop 1 (dropWhile (\<lambda>x. x \<noteq> c) s)"
  by (induction s) auto

lemma first_segment: "(case split c s of [] \<Rightarrow> [] | a # x \<Rightarrow> a) = takeWhile (\<lambda>x. x \<noteq> c) s"
  by (induction s) (auto split: list.splits)

lemma second_segment:
  "c \<notin> set a \<Longrightarrow> nth_opt (split c (a @ c # p)) 1 = Some (takeWhile (\<lambda>x. x \<noteq> c) p)"
  using first_segment [of c p] split_not_Nil [of c p]
  by (auto simp add: split_at_separator split: list.splits)

lemma no_second_segment: "c \<notin> set s \<Longrightarrow> nth_opt (split c s) 1 = None"
  by (simp add: split_no_separator)

lemma takeWhile_before_separator:
  "c \<notin> set a \<Longrightarrow> takeWhile (\<lambda>x. x \<noteq> c) (a @ c # p) = a"
  by (induction a) auto

lemma truthy_or_empty:
  "(case x of Some c \<Rightarrow> if c \<noteq> [] then c else [] | None \<Rightarrow> [])
     = (case x of Some (c::string) \<Rightarrow> c | None \<Rightarrow> [])"
  by (simp split: option.splits)

section \<open>Facts about the handler\<close>

lemma accepted_event:
  assumes "getType ev = ''m.room.message''" and "getSender ev = Some sndr"
    and "sndr \<noteq> []" and "sndr \<noteq> botUserId cfg"
    and "sndr \<notin> set (ignoreList (FAUCET_IGNORE_LIST cfg))" and "body ev = Some b"
  shows "onRoomTimeline cfg env ev =
     (Log Debug (''Processing request from '' @ sndr) None
        # fst (command cfg env (getRoomId ev) sndr (split CHR '' '' b)),
      snd (command cfg env (getRoomId ev) sndr (split CHR '' '' b)))"
  using assms by (simp add: onRoomTimeline_def split: prod.splits)

lemma command_drip:
  "command cfg env room sndr (''!drip'' # rest) =
     (dripCommand cfg env room sndr (nth_opt rest 0) (nth_opt rest 1), Returned)"
  by (simp add: command_def numeral_2_eq_2)

lemma command_balance:
  "command cfg env room sndr (''!balance'' # rest) = (balanceCommand cfg env room, Returned)"
  by (simp add: command_def)

lemma command_other:
  "\<not> startsWith action ''!'' \<Longrightarrow> command cfg env room sndr (action # rest) = ([], Returned)"
  by (auto simp add: command_def startsWith_def)

lemma drip_event:
  assumes "getType ev = ''m.room.message''" and "getSender ev = Some sndr"
    and "sndr \<noteq> []" and "sndr \<noteq> botUserId cfg"
    and "sndr \<notin> set (ignoreList (FAUCET_IGNORE_LIST cfg))" and "body ev = Some b"
    and "split CHR '' '' b = ''!drip'' # rest"
  shows "onRoomTimeline cfg env ev =
     (Log Debug (''Processing request from '' @ sndr) None
        # dripCommand cfg env (getRoomId ev) sndr (nth_opt rest 0) (nth_opt rest 1),
      Returned)"
  using accepted_event [OF assms(1-6)] by (simp add: assms(7) command_drip)

lemma balance_event:
  assumes "getType ev = ''m.room.message''" and "getSender ev = Some sndr"
    and "sndr \<noteq> []" and "sndr \<noteq> botUserId cfg"
    and "sndr \<notin> set (ignoreList (FAUCET_IGNORE_LIST cfg))" and "body ev = Some b"
    and "split CHR '' '' b = ''!balance'' # rest"
  shows "onRoomTimeline cfg env ev =
     (Log Debug (''Processing request from '' @ sndr) None
        # balanceCommand cfg env (getRoomId ev), Returned)"
  using accepted_event [OF assms(1-6)] by (simp add: assms(7) command_balance)

lemma dripCommand_rejects:
  assumes "a0 \<noteq> []" and "\<not> decodeAddress env (takeWhile (\<lambda>x. x \<noteq> CHR '':'') (trim a0))"
  shows "\<exists>l. dripCommand cfg env room sndr (Some a0) arg1 =
     [Log Debug l None, SendEvent room (sndr @ '' provided an incompatible address.'')]"
  using assms by (simp add: dripCommand_def Let_def first_segment sendMessage_def)

lemma dripCommand_posts:
  assumes "a0 \<noteq> []" and "decodeAddress env (takeWhile (\<lambda>x. x \<noteq> CHR '':'') (trim a0))"
  shows "\<exists>l. dripCommand cfg env room sndr (Some a0) arg1 =
     Log Debug l None
     # HttpPost ''/bot-endpoint''
         \<lparr>address = takeWhile (\<lambda>x. x \<noteq> CHR '':'') (trim a0),
          amount = dripAmountOf cfg sndr arg1,
          parachain_id = (case nth_opt (split CHR '':'' (trim a0)) 1 of
                            Some c \<Rightarrow> c | None \<Rightarrow> []),
          sender = sndr\<rparr>
     # (case postDrip env
               \<lparr>address = takeWhile (\<lambda>x. x \<noteq> CHR '':'') (trim a0),
                amount = dripAmountOf cfg sndr arg1,
                parachain_id = (case nth_opt (split CHR '':'' (trim a0)) 1 of
                                  Some c \<Rightarrow> c | None \<Rightarrow> []),
                sender = sndr\<rparr> of
          Fulfilled res \<Rightarrow> dripThen cfg room sndr (dripAmountOf cfg sndr arg1) res
        | NoData m \<Rightarrow> dripCatch room m
        | Rejected e \<Rightarrow> dripCatch room e)"
  using assms by (simp add: dripCommand_def Let_def first_segment truthy_or_empty)

lemma requests_dripThen [simp]: "requests (dripThen cfg room sndr amt res) = []"
  by (simp add: dripThen_def sendMessage_def)

lemma requests_dripCatch [simp]: "requests (dripCatch room e) = []"
  by (simp add: dripCatch_def sendMessage_def)

lemma replies_dripCatch [simp]:
  "replies (dripCatch room e) = [(room, if e \<noteq> [] then e else fallbackMessage)]"
  by (simp add: dripCatch_def sendMessage_def)

lemma replies_dripThen_failure:
  "\<not> isDripSuccessResponse res \<Longrightarrow>
   replies (dripThen cfg room sndr amt res) = [(room, orElse (error res) fallbackMessage)]"
  by (simp add: dripThen_def sendMessage_def)

lemma drip_requests:
  assumes "getType ev = ''m.room.message''" and "getSender ev = Some sndr"
    and "sndr \<noteq> []" and "sndr \<noteq> botUserId cfg"
    and "sndr \<notin> set (ignoreList (FAUCET_IGNORE_LIST cfg))" and "body ev = Some b"
    and "split CHR '' '' b = ''!drip'' # a0 # rest" and "a0 \<noteq> []"
    and "decodeAddress env (takeWhile (\<lambda>x. x \<noteq> CHR '':'') (trim a0))"
  shows "requests (fst (onRoomTimeline cfg env ev)) =
     [HttpPost ''/bot-endpoint''
        \<lparr>address = takeWhile (\<lambda>x. x \<noteq> CHR '':'') (trim a0),
         amount = dripAmountOf cfg sndr (nth_opt rest 0),
         parachain_id = (case nth_opt (split CHR '':'' (trim a0)) 1 of
                           Some c \<Rightarrow> c | None \<Rightarrow> []),
         sender = sndr\<rparr>]"
proof -
  obtain l where "dripCommand cfg env (getRoomId ev) sndr (Some a0) (nth_opt rest 0) =
      Log Debug l None
      # HttpPost ''/bot-endpoint''
         \<lparr>address = takeWhile (\<lambda>x. x \<noteq> CHR '':'') (trim a0),
          amount = dripAmountOf cfg sndr (nth_opt rest 0),
          parachain_id = (case nth_opt (split CHR '':'' (trim a0)) 1 of
                            Some c \<Rightarrow> c | None \<Rightarrow> []),
          sender = sndr\<rparr>
      # (case postDrip env
               \<lparr>address = takeWhile (\<lambda>x. x \<noteq> CHR '':'') (trim a0),
                amount = dripAmountOf cfg sndr (nth_opt rest 0),
                parachain_id = (case nth_opt (split CHR '':'' (trim a0)) 1 of
                                  Some c \<Rightarrow> c | None \<Rightarrow> []),
                sender = sndr\<rparr> of
          Fulfilled res \<Rightarrow>
            dripThen cfg (getRoomId ev) sndr (dripAmountOf cfg sndr (nth_opt rest 0)) res
        | NoData m \<Rightarrow> dripCatch (getRoomId ev) m
        | Rejected e \<Rightarrow> dripCatch (getRoomId ev) e)"
    using dripCommand_posts [OF assms(8,9), of cfg "getRoomId ev" sndr "nth_opt rest 0"]
    by blast
  then show ?thesis
    by (simp add: drip_event [OF assms(1-7)] split: promise.splits)
qed

lemma pow10_12: "pow10 env 12 = Fin 244140625 12"
proof -
  have "fromDecimal False 1 12 = Fin 244140625 12"
    by code_simp
  then show ?thesis
    by (simp add: pow10_def)
qed

lemma five_units:
  "NumberToString (divideNumbers (StringToNumber ''5000000000000'') (pow10 env 12)) = ''5''"
proof -
  have "NumberToString (divideNumbers (StringToNumber ''5000000000000'') (Fin 244140625 12))
          = ''5''"
    by code_simp
  then show ?thesis
    by (simp only: pow10_12)
qed

section \<open>The claims\<close>

text \<open>
  Claim C1. When the backend answers a drip with a hash that is the empty string or
  \<^verbatim>\<open>null\<close>, the reply sent to the room is the backend's error message when there is a
  non-empty one, and the generic fallback otherwise (also with no error field at all):
  never the confirmation of a drip. The decision is \<open>isDripSuccessResponse\<close>, taken from
  the spec.
\<close>

theorem drip_without_hash_is_failure:
  assumes "getType ev = ''m.room.message''" and "getSender ev = Some sndr"
    and "sndr \<noteq> []" and "sndr \<noteq> botUserId cfg"
    and "sndr \<notin> set (ignoreList (FAUCET_IGNORE_LIST cfg))" and "body ev = Some b"
    and "split CHR '' '' b = ''!drip'' # a0 # rest" and "a0 \<noteq> []"
    and "decodeAddress env (takeWhile (\<lambda>x. x \<noteq> CHR '':'') (trim a0))"
    and "\<forall>req. postDrip env req = Fulfilled res"
    and "hash res = Val [] \<or> hash res = Null"
  shows "replies (fst (onRoomTimeline cfg env ev))
           = [(getRoomId ev,
               case error res of
                 Val e \<Rightarrow> if e \<noteq> [] then e
                          else ''An unexpected error occured, please check the server logs''
               | _ \<Rightarrow> ''An unexpected error occured, please check the server logs'')]"
proof -
  have f: "\<not> isDripSuccessResponse res"
    using assms(11) by (auto simp add: isDripSuccessResponse_def)
  obtain l where "dripCommand cfg env (getRoomId ev) sndr (Some a0) (nth_opt rest 0) =
      Log Debug l None
      # HttpPost ''/bot-endpoint''
         \<lparr>address = takeWhile (\<lambda>x. x \<noteq> CHR '':'') (trim a0),
          amount = dripAmountOf cfg sndr (nth_opt rest 0),
          parachain_id = (case nth_opt (split CHR '':'' (trim a0)) 1 of
                            Some c \<Rightarrow> c | None \<Rightarrow> []),
          sender = sndr\<rparr>
      # dripThen cfg (getRoomId ev) sndr (dripAmountOf cfg sndr (nth_opt rest 0)) res"
    using dripCommand_posts [OF assms(8,9), of cfg "getRoomId ev" sndr "nth_opt rest 0"]
    by (auto simp add: assms(10))
  then show ?thesis
    by (cases "error res")
       (simp_all add: drip_event [OF assms(1-7)] replies_dripThen_failure [OF f]
          fallbackMessage_def)
qed

theorem drip_without_hash_is_failure_witness:
  "replies (fst (onRoomTimeline exampleConfig
                   (exampleBackend (Rejected []) (Fulfilled \<lparr>hash = Null, error = Absent\<rparr>))
                   (message ''@alice:matrix.org'' ''!drip 5GrwvaEF5zXb26Fz9rcQpDWS57CtERHpNehXCPcNoHGKutQY'')))
     = [(''!room:matrix.org'', ''An unexpected error occured, please check the server logs'')]"
proof -
  let ?ev = "message ''@alice:matrix.org'' ''!drip 5GrwvaEF5zXb26Fz9rcQpDWS57CtERHpNehXCPcNoHGKutQY''"
  let ?env = "exampleBackend (Rejected []) (Fulfilled \<lparr>hash = Null, error = Absent\<rparr>)"
  have 1: "getType ?ev = ''m.room.message''" by (simp add: message_def)
  have 2: "getSender ?ev = Some ''@alice:matrix.org''" by (simp add: message_def)
  have 3: "''@alice:matrix.org'' \<noteq> []" by simp
  have 4: "''@alice:matrix.org'' \<noteq> botUserId exampleConfig" by (simp add: exampleConfig_def)
  have 5: "''@alice:matrix.org'' \<notin> set (ignoreList (FAUCET_IGNORE_LIST exampleConfig))"
    by code_simp
  have 6: "body ?ev = Some ''!drip 5GrwvaEF5zXb26Fz9rcQpDWS57CtERHpNehXCPcNoHGKutQY''" by (simp add: message_def)
  have 7: "split CHR '' '' ''!drip 5GrwvaEF5zXb26Fz9rcQpDWS57CtERHpNehXCPcNoHGKutQY'' = ''!drip'' # ''5GrwvaEF5zXb26Fz9rcQpDWS57CtERHpNehXCPcNoHGKutQY'' # []" by simp
  have 8: "''5GrwvaEF5zXb26Fz9rcQpDWS57CtERHpNehXCPcNoHGKutQY'' \<noteq> []" by simp
  have 9: "decodeAddress ?env (takeWhile (\<lambda>x. x \<noteq> CHR '':'') (trim ''5GrwvaEF5zXb26Fz9rcQpDWS57CtERHpNehXCPcNoHGKutQY''))"
    by code_simp
  have 10: "\<forall>req. postDrip ?env req = Fulfilled \<lparr>hash = Null, error = Absent\<rparr>"
    by (simp add: exampleBackend_def)
  have 11: "hash \<lparr>hash = Null, error = Absent\<rparr> = Val [] \<or> hash \<lparr>hash = Null, error = Absent\<rparr> = Null"
    by simp
  from drip_without_hash_is_failure [OF 1 2 3 4 5 6 7 8 9 10 11] show ?thesis
    by (simp add: message_def)
qed

text \<open>
  Claim C2. A \<^verbatim>\<open>!drip\<close> with a third token posts exactly one request. From a sender
  whose identifier does not end with \<^verbatim>\<open>:matrix.parity.io\<close> its amount is the configured
  default, whatever the third token is; from a sender whose identifier ends with that
  suffix it is the numeric value of the (non-empty) third token.
\<close>

theorem drip_override_only_for_trusted:
  assumes "getType ev = ''m.room.message''" and "getSender ev = Some sndr"
    and "sndr \<noteq> []" and "sndr \<noteq> botUserId cfg"
    and "sndr \<notin> set (ignoreList (FAUCET_IGNORE_LIST cfg))" and "body ev = Some b"
    and "split CHR '' '' b = ''!drip'' # a0 # a1 # rest" and "a0 \<noteq> []"
    and "decodeAddress env (takeWhile (\<lambda>x. x \<noteq> CHR '':'') (trim a0))"
  shows "\<exists>req. requests (fst (onRoomTimeline cfg env ev)) = [HttpPost ''/bot-endpoint'' req]
           \<and> (\<not> endsWith sndr '':matrix.parity.io'' \<longrightarrow> amount req = defaultDripAmount cfg)
           \<and> (endsWith sndr '':matrix.parity.io'' \<and> a1 \<noteq> [] \<longrightarrow>
                amount req = StringToNumber a1)"
  by (simp add: drip_requests [OF assms] dripAmountOf_def)

theorem drip_override_only_for_trusted_witness:
  "(\<exists>req. requests (fst (onRoomTimeline exampleConfig
                   (exampleBackend (Rejected []) (Rejected []))
                   (message ''@eve:matrix.org'' ''!drip 5GrwvaEF5zXb26Fz9rcQpDWS57CtERHpNehXCPcNoHGKutQY 1000''))) = [HttpPost ''/bot-endpoint'' req]
      \<and> amount req = Fin 1 (- 1))
   \<and> (\<exists>req. requests (fst (onRoomTimeline exampleConfig
                   (exampleBackend (Rejected []) (Rejected []))
                   (message ''@alice:matrix.parity.io'' ''!drip 5GrwvaEF5zXb26Fz9rcQpDWS57CtERHpNehXCPcNoHGKutQY 1000''))) = [HttpPost ''/bot-endpoint'' req]
      \<and> amount req = Fin 125 3)"
proof -
  let ?env = "exampleBackend (Rejected []) (Rejected [])"
  have a: "''5GrwvaEF5zXb26Fz9rcQpDWS57CtERHpNehXCPcNoHGKutQY'' \<noteq> []" by simp
  have d: "decodeAddress ?env (takeWhile (\<lambda>x. x \<noteq> CHR '':'') (trim ''5GrwvaEF5zXb26Fz9rcQpDWS57CtERHpNehXCPcNoHGKutQY''))"
    by code_simp
  have n: "StringToNumber ''1000'' = Fin 125 3" by code_simp
  have "\<exists>req. requests (fst (onRoomTimeline exampleConfig ?env
                   (message ''@eve:matrix.org'' ''!drip 5GrwvaEF5zXb26Fz9rcQpDWS57CtERHpNehXCPcNoHGKutQY 1000''))) = [HttpPost ''/bot-endpoint'' req]
      \<and> amount req = Fin 1 (- 1)"
  proof -
    let ?ev = "message ''@eve:matrix.org'' ''!drip 5GrwvaEF5zXb26Fz9rcQpDWS57CtERHpNehXCPcNoHGKutQY 1000''"
    have 1: "getType ?ev = ''m.room.message''" by (simp add: message_def)
    have 2: "getSender ?ev = Some ''@eve:matrix.org''" by (simp add: message_def)
    have 3: "''@eve:matrix.org'' \<noteq> []" by simp
    have 4: "''@eve:matrix.org'' \<noteq> botUserId exampleConfig" by (simp add: exampleConfig_def)
    have 5: "''@eve:matrix.org'' \<notin> set (ignoreList (FAUCET_IGNORE_LIST exampleConfig))"
      by code_simp
    have 6: "body ?ev = Some ''!drip 5GrwvaEF5zXb26Fz9rcQpDWS57CtERHpNehXCPcNoHGKutQY 1000''" by (simp add: message_def)
    have 7: "split CHR '' '' ''!drip 5GrwvaEF5zXb26Fz9rcQpDWS57CtERHpNehXCPcNoHGKutQY 1000'' = ''!drip'' # ''5GrwvaEF5zXb26Fz9rcQpDWS57CtERHpNehXCPcNoHGKutQY'' # ''1000'' # []" by simp
    have u: "\<not> endsWith ''@eve:matrix.org'' '':matrix.parity.io''" by code_simp
    from drip_override_only_for_trusted [OF 1 2 3 4 5 6 7 a d] u show ?thesis
      by (simp add: exampleConfig_def)
  qed
  moreover
  have "\<exists>req. requests (fst (onRoomTimeline exampleConfig ?env
                   (message ''@alice:matrix.parity.io'' ''!drip 5GrwvaEF5zXb26Fz9rcQpDWS57CtERHpNehXCPcNoHGKutQY 1000''))) = [HttpPost ''/bot-endpoint'' req]
      \<and> amount req = Fin 125 3"
  proof -
    let ?ev = "message ''@alice:matrix.parity.io'' ''!drip 5GrwvaEF5zXb26Fz9rcQpDWS57CtERHpNehXCPcNoHGKutQY 1000''"
    have 1: "getType ?ev = ''m.room.message''" by (simp add: message_def)
    have 2: "getSender ?ev = Some ''@alice:matrix.parity.io''" by (simp add: message_def)
    have 3: "''@alice:matrix.parity.io'' \<noteq> []" by simp
    have 4: "''@alice:matrix.parity.io'' \<noteq> botUserId exampleConfig" by (simp add: exampleConfig_def)
    have 5: "''@alice:matrix.parity.io'' \<notin> set (ignoreList (FAUCET_IGNORE_LIST exampleConfig))"
      by code_simp
    have 6: "body ?ev = Some ''!drip 5GrwvaEF5zXb26Fz9rcQpDWS57CtERHpNehXCPcNoHGKutQY 1000''" by (simp add: message_def)
    have 7: "split CHR '' '' ''!drip 5GrwvaEF5zXb26Fz9rcQpDWS57CtERHpNehXCPcNoHGKutQY 1000'' = ''!drip'' # ''5GrwvaEF5zXb26Fz9rcQpDWS57CtERHpNehXCPcNoHGKutQY'' # ''1000'' # []" by simp
    have t: "endsWith ''@alice:matrix.parity.io'' '':matrix.parity.io'' \<and> ''1000'' \<noteq> []"
      by code_simp
    from drip_override_only_for_trusted [OF 1 2 3 4 5 6 7 a d] t n show ?thesis
      by simp
  qed
  ultimately show ?thesis by blast
qed

text \<open>
  Claim C3, as stated: every message event whose sender is in the ignore list is logged
  with a warning. The filter for the bot's own messages comes first (line 122): with the
  bot's own identifier in the ignore list, a message from the bot is a message from a
  listed sender and the run has no effect at all, so no warning either.
\<close>

theorem ignored_sender_logged_counterexample:
  "getType (message ''@faucet:matrix.org'' ''!help'') = ''m.room.message''
   \<and> getSender (message ''@faucet:matrix.org'' ''!help'') = Some ''@faucet:matrix.org''
   \<and> ''@faucet:matrix.org'' \<in> set (ignoreList (FAUCET_IGNORE_LIST selfIgnoringConfig))
   \<and> onRoomTimeline selfIgnoringConfig (exampleBackend (Rejected []) (Rejected []))
         (message ''@faucet:matrix.org'' ''!help'') = ([], Returned)"
  by (simp add: message_def selfIgnoringConfig_def exampleConfig_def ignoreList_def quote_def
      onRoomTimeline_def)

text \<open>
  Claim C3, amended. A message event whose sender is in the ignore list makes no HTTP
  request and sends no reply; when that sender is not empty and is not the bot itself,
  the run is exactly the one warning that names the sender.
\<close>

theorem ignored_sender_dropped:
  assumes "getType ev = ''m.room.message''" and "getSender ev = Some sndr"
    and "sndr \<in> set (ignoreList (FAUCET_IGNORE_LIST cfg))"
  shows "replies (fst (onRoomTimeline cfg env ev)) = []
         \<and> requests (fst (onRoomTimeline cfg env ev)) = []
         \<and> (sndr \<noteq> [] \<and> sndr \<noteq> botUserId cfg \<longrightarrow>
              onRoomTimeline cfg env ev =
                ([Log Warn (pirateFlag @ '' Ignored request from an ignored account: '' @ sndr)
                    None], Returned))"
  using assms by (simp add: onRoomTimeline_def)

theorem ignored_sender_dropped_witness:
  "replies (fst (onRoomTimeline exampleConfig (exampleBackend (Rejected []) (Rejected []))
                   (message ''@spam:matrix.org'' ''!balance''))) = []
   \<and> requests (fst (onRoomTimeline exampleConfig (exampleBackend (Rejected []) (Rejected []))
                       (message ''@spam:matrix.org'' ''!balance''))) = []
   \<and> onRoomTimeline exampleConfig (exampleBackend (Rejected []) (Rejected []))
         (message ''@spam:matrix.org'' ''!balance'') =
       ([Log Warn (pirateFlag @ '' Ignored request from an ignored account: @spam:matrix.org'')
           None], Returned)"
proof -
  let ?ev = "message ''@spam:matrix.org'' ''!balance''"
  have 1: "getType ?ev = ''m.room.message''" by (simp add: message_def)
  have 2: "getSender ?ev = Some ''@spam:matrix.org''" by (simp add: message_def)
  have 3: "''@spam:matrix.org'' \<in> set (ignoreList (FAUCET_IGNORE_LIST exampleConfig))"
    by code_simp
  have 4: "''@spam:matrix.org'' \<noteq> [] \<and> ''@spam:matrix.org'' \<noteq> botUserId exampleConfig"
    by (simp add: exampleConfig_def)
  from ignored_sender_dropped [OF 1 2 3] 4 show ?thesis
    by simp
qed

text \<open>
  Claim C4. A \<^verbatim>\<open>!drip\<close> whose address (the trimmed argument up to its first colon) does
  not decode gets the one reply \<^verbatim>\<open><sender> provided an incompatible address.\<close> in the
  room of the event, and no HTTP request is made.
\<close>

theorem drip_incompatible_address:
  assumes "getType ev = ''m.room.message''" and "getSender ev = Some sndr"
    and "sndr \<noteq> []" and "sndr \<noteq> botUserId cfg"
    and "sndr \<notin> set (ignoreList (FAUCET_IGNORE_LIST cfg))" and "body ev = Some b"
    and "split CHR '' '' b = ''!drip'' # a0 # rest" and "a0 \<noteq> []"
    and "\<not> decodeAddress env (takeWhile (\<lambda>x. x \<noteq> CHR '':'') (trim a0))"
  shows "replies (fst (onRoomTimeline cfg env ev))
           = [(getRoomId ev, sndr @ '' provided an incompatible address.'')]
         \<and> requests (fst (onRoomTimeline cfg env ev)) = []"
proof -
  obtain l where "dripCommand cfg env (getRoomId ev) sndr (Some a0) (nth_opt rest 0) =
      [Log Debug l None, SendEvent (getRoomId ev) (sndr @ '' provided an incompatible address.'')]"
    using dripCommand_rejects [OF assms(8,9)] by blast
  then show ?thesis
    by (simp add: drip_event [OF assms(1-7)])
qed

theorem drip_incompatible_address_witness:
  "replies (fst (onRoomTimeline exampleConfig (exampleBackend (Rejected []) (Rejected []))
                   (message ''@alice:matrix.org'' ''!drip 5ABC'')))
     = [(''!room:matrix.org'', ''@alice:matrix.org provided an incompatible address.'')]
   \<and> requests (fst (onRoomTimeline exampleConfig (exampleBackend (Rejected []) (Rejected []))
                       (message ''@alice:matrix.org'' ''!drip 5ABC''))) = []"
proof -
  let ?ev = "message ''@alice:matrix.org'' ''!drip 5ABC''"
  let ?env = "exampleBackend (Rejected []) (Rejected [])"
  have 1: "getType ?ev = ''m.room.message''" by (simp add: message_def)
  have 2: "getSender ?ev = Some ''@alice:matrix.org''" by (simp add: message_def)
  have 3: "''@alice:matrix.org'' \<noteq> []" by simp
  have 4: "''@alice:matrix.org'' \<noteq> botUserId exampleConfig" by (simp add: exampleConfig_def)
  have 5: "''@alice:matrix.org'' \<notin> set (ignoreList (FAUCET_IGNORE_LIST exampleConfig))"
    by code_simp
  have 6: "body ?ev = Some ''!drip 5ABC''" by (simp add: message_def)
  have 7: "split CHR '' '' ''!drip 5ABC'' = ''!drip'' # ''5ABC'' # []" by simp
  have 8: "''5ABC'' \<noteq> []" by simp
  have 9: "\<not> decodeAddress ?env (takeWhile (\<lambda>x. x \<noteq> CHR '':'') (trim ''5ABC''))"
    by code_simp
  from drip_incompatible_address [OF 1 2 3 4 5 6 7 8 9] show ?thesis
    by (simp add: message_def)
qed

text \<open>
  Claim C5. For a \<^verbatim>\<open>!drip\<close> whose argument is \<^verbatim>\<open><address>:<suffix>\<close> with an address that
  decodes, the one request is a POST to \<^verbatim>\<open>/bot-endpoint\<close> whose body holds the address,
  the amount, the sender, and \<^verbatim>\<open>parachain_id\<close> equal to the suffix; with no colon in the
  argument \<^verbatim>\<open>parachain_id\<close> is the empty string.
\<close>

theorem drip_posts_parachain_id:
  assumes "getType ev = ''m.room.message''" and "getSender ev = Some sndr"
    and "sndr \<noteq> []" and "sndr \<noteq> botUserId cfg"
    and "sndr \<notin> set (ignoreList (FAUCET_IGNORE_LIST cfg))" and "body ev = Some b"
    and "split CHR '' '' b = ''!drip'' # a0 # rest" and "a0 \<noteq> []"
  shows "(\<forall>a p. trim a0 = a @ CHR '':'' # p \<and> CHR '':'' \<notin> set a \<and> CHR '':'' \<notin> set p
              \<and> decodeAddress env a \<longrightarrow>
            requests (fst (onRoomTimeline cfg env ev)) =
              [HttpPost ''/bot-endpoint''
                 \<lparr>address = a, amount = dripAmountOf cfg sndr (nth_opt rest 0),
                  parachain_id = p, sender = sndr\<rparr>])
         \<and> (CHR '':'' \<notin> set (trim a0) \<and> decodeAddress env (trim a0) \<longrightarrow>
            requests (fst (onRoomTimeline cfg env ev)) =
              [HttpPost ''/bot-endpoint''
                 \<lparr>address = trim a0, amount = dripAmountOf cfg sndr (nth_opt rest 0),
                  parachain_id = [], sender = sndr\<rparr>])"
proof (intro conjI allI impI)
  fix a p
  assume h: "trim a0 = a @ CHR '':'' # p \<and> CHR '':'' \<notin> set a \<and> CHR '':'' \<notin> set p
             \<and> decodeAddress env a"
  then have 1: "takeWhile (\<lambda>x. x \<noteq> CHR '':'') (trim a0) = a"
    by (simp add: takeWhile_before_separator)
  from h have 2: "nth_opt (split CHR '':'' (trim a0)) (Suc 0) = Some p"
    using second_segment [of "CHR '':''" a p] by auto
  from h 1 have "decodeAddress env (takeWhile (\<lambda>x. x \<noteq> CHR '':'') (trim a0))"
    by simp
  from drip_requests [OF assms this]
  show "requests (fst (onRoomTimeline cfg env ev)) =
              [HttpPost ''/bot-endpoint''
                 \<lparr>address = a, amount = dripAmountOf cfg sndr (nth_opt rest 0),
                  parachain_id = p, sender = sndr\<rparr>]"
    by (simp add: 1 2)
next
  assume h: "CHR '':'' \<notin> set (trim a0) \<and> decodeAddress env (trim a0)"
  then have 1: "takeWhile (\<lambda>x. x \<noteq> CHR '':'') (trim a0) = trim a0"
    by auto
  from h have 2: "nth_opt (split CHR '':'' (trim a0)) (Suc 0) = None"
    using no_second_segment [of "CHR '':''" "trim a0"] by simp
  from h have "decodeAddress env (trim a0)"
    by blast
  then have "decodeAddress env (takeWhile (\<lambda>x. x \<noteq> CHR '':'') (trim a0))"
    by (simp only: 1)
  from drip_requests [OF assms this]
  show "requests (fst (onRoomTimeline cfg env ev)) =
              [HttpPost ''/bot-endpoint''
                 \<lparr>address = trim a0, amount = dripAmountOf cfg sndr (nth_opt rest 0),
                  parachain_id = [], sender = sndr\<rparr>]"
    by (simp add: 1 2)
qed

theorem drip_posts_parachain_id_witness:
  "requests (fst (onRoomTimeline exampleConfig (exampleBackend (Rejected []) (Rejected []))
                    (message ''@alice:matrix.org'' ''!drip 5GrwvaEF5zXb26Fz9rcQpDWS57CtERHpNehXCPcNoHGKutQY:2000'')))
     = [HttpPost ''/bot-endpoint''
          \<lparr>address = ''5GrwvaEF5zXb26Fz9rcQpDWS57CtERHpNehXCPcNoHGKutQY'', amount = Fin 1 (- 1),
           parachain_id = ''2000'', sender = ''@alice:matrix.org''\<rparr>]
   \<and> requests (fst (onRoomTimeline exampleConfig (exampleBackend (Rejected []) (Rejected []))
                    (message ''@bob:matrix.org'' ''!drip 5GrwvaEF5zXb26Fz9rcQpDWS57CtERHpNehXCPcNoHGKutQY'')))
     = [HttpPost ''/bot-endpoint''
          \<lparr>address = ''5GrwvaEF5zXb26Fz9rcQpDWS57CtERHpNehXCPcNoHGKutQY'', amount = Fin 1 (- 1),
           parachain_id = [], sender = ''@bob:matrix.org''\<rparr>]"
proof -
  let ?env = "exampleBackend (Rejected []) (Rejected [])"
  have "requests (fst (onRoomTimeline exampleConfig ?env
                    (message ''@alice:matrix.org'' ''!drip 5GrwvaEF5zXb26Fz9rcQpDWS57CtERHpNehXCPcNoHGKutQY:2000'')))
     = [HttpPost ''/bot-endpoint''
          \<lparr>address = ''5GrwvaEF5zXb26Fz9rcQpDWS57CtERHpNehXCPcNoHGKutQY'', amount = Fin 1 (- 1),
           parachain_id = ''2000'', sender = ''@alice:matrix.org''\<rparr>]"
  proof -
    let ?ev = "message ''@alice:matrix.org'' ''!drip 5GrwvaEF5zXb26Fz9rcQpDWS57CtERHpNehXCPcNoHGKutQY:2000''"
    have 1: "getType ?ev = ''m.room.message''" by (simp add: message_def)
    have 2: "getSender ?ev = Some ''@alice:matrix.org''" by (simp add: message_def)
    have 3: "''@alice:matrix.org'' \<noteq> []" by simp
    have 4: "''@alice:matrix.org'' \<noteq> botUserId exampleConfig" by (simp add: exampleConfig_def)
    have 5: "''@alice:matrix.org'' \<notin> set (ignoreList (FAUCET_IGNORE_LIST exampleConfig))"
      by code_simp
    have 6: "body ?ev = Some ''!drip 5GrwvaEF5zXb26Fz9rcQpDWS57CtERHpNehXCPcNoHGKutQY:2000''" by (simp add: message_def)
    have 7: "split CHR '' '' ''!drip 5GrwvaEF5zXb26Fz9rcQpDWS57CtERHpNehXCPcNoHGKutQY:2000'' = ''!drip'' # ''5GrwvaEF5zXb26Fz9rcQpDWS57CtERHpNehXCPcNoHGKutQY:2000'' # []" by simp
    have 8: "''5GrwvaEF5zXb26Fz9rcQpDWS57CtERHpNehXCPcNoHGKutQY:2000'' \<noteq> []" by simp
    have 9: "trim ''5GrwvaEF5zXb26Fz9rcQpDWS57CtERHpNehXCPcNoHGKutQY:2000'' = ''5GrwvaEF5zXb26Fz9rcQpDWS57CtERHpNehXCPcNoHGKutQY'' @ CHR '':'' # ''2000''
             \<and> CHR '':'' \<notin> set ''5GrwvaEF5zXb26Fz9rcQpDWS57CtERHpNehXCPcNoHGKutQY'' \<and> CHR '':'' \<notin> set ''2000''
             \<and> decodeAddress ?env ''5GrwvaEF5zXb26Fz9rcQpDWS57CtERHpNehXCPcNoHGKutQY''"
      by code_simp
    have 10: "dripAmountOf exampleConfig ''@alice:matrix.org'' None = Fin 1 (- 1)"
      by (simp add: dripAmountOf_def exampleConfig_def)
    from drip_posts_parachain_id [OF 1 2 3 4 5 6 7 8, of ?env, THEN conjunct1, rule_format, OF 9]
    show ?thesis
      by (simp add: 10)
  qed
  moreover
  have "requests (fst (onRoomTimeline exampleConfig ?env
                    (message ''@bob:matrix.org'' ''!drip 5GrwvaEF5zXb26Fz9rcQpDWS57CtERHpNehXCPcNoHGKutQY'')))
     = [HttpPost ''/bot-endpoint''
          \<lparr>address = ''5GrwvaEF5zXb26Fz9rcQpDWS57CtERHpNehXCPcNoHGKutQY'', amount = Fin 1 (- 1),
           parachain_id = [], sender = ''@bob:matrix.org''\<rparr>]"
  proof -
    let ?ev = "message ''@bob:matrix.org'' ''!drip 5GrwvaEF5zXb26Fz9rcQpDWS57CtERHpNehXCPcNoHGKutQY''"
    have 1: "getType ?ev = ''m.room.message''" by (simp add: message_def)
    have 2: "getSender ?ev = Some ''@bob:matrix.org''" by (simp add: message_def)
    have 3: "''@bob:matrix.org'' \<noteq> []" by simp
    have 4: "''@bob:matrix.org'' \<noteq> botUserId exampleConfig" by (simp add: exampleConfig_def)
    have 5: "''@bob:matrix.org'' \<notin> set (ignoreList (FAUCET_IGNORE_LIST exampleConfig))"
      by code_simp
    have 6: "body ?ev = Some ''!drip 5GrwvaEF5zXb26Fz9rcQpDWS57CtERHpNehXCPcNoHGKutQY''" by (simp add: message_def)
    have 7: "split CHR '' '' ''!drip 5GrwvaEF5zXb26Fz9rcQpDWS57CtERHpNehXCPcNoHGKutQY'' = ''!drip'' # ''5GrwvaEF5zXb26Fz9rcQpDWS57CtERHpNehXCPcNoHGKutQY'' # []" by simp
    have 8: "''5GrwvaEF5zXb26Fz9rcQpDWS57CtERHpNehXCPcNoHGKutQY'' \<noteq> []" by simp
    have t: "trim ''5GrwvaEF5zXb26Fz9rcQpDWS57CtERHpNehXCPcNoHGKutQY'' = ''5GrwvaEF5zXb26Fz9rcQpDWS57CtERHpNehXCPcNoHGKutQY''" by code_simp
    have 9: "CHR '':'' \<notin> set (trim ''5GrwvaEF5zXb26Fz9rcQpDWS57CtERHpNehXCPcNoHGKutQY'') \<and> decodeAddress ?env (trim ''5GrwvaEF5zXb26Fz9rcQpDWS57CtERHpNehXCPcNoHGKutQY'')"
      by code_simp
    have 10: "dripAmountOf exampleConfig ''@bob:matrix.org'' None = Fin 1 (- 1)"
      by (simp add: dripAmountOf_def exampleConfig_def)
    from drip_posts_parachain_id [OF 1 2 3 4 5 6 7 8, of ?env, THEN conjunct2, rule_format, OF 9]
    show ?thesis
      by (simp add: 10 t)
  qed
  ultimately show ?thesis by blast
qed

text \<open>
  Claim C6. With 12 decimals, the unit \<^verbatim>\<open>UNIT\<close> and a backend that answers
  \<^verbatim>\<open>{balance: "5000000000000"}\<close>, a \<^verbatim>\<open>!balance\<close> is answered with exactly
  \<^verbatim>\<open>The faucet has 5 UNITs remaining.\<close>, after one GET of \<^verbatim>\<open>/balance\<close>.
\<close>

theorem balance_reply_example:
  assumes "getType ev = ''m.room.message''" and "getSender ev = Some sndr"
    and "sndr \<noteq> []" and "sndr \<noteq> botUserId cfg"
    and "sndr \<notin> set (ignoreList (FAUCET_IGNORE_LIST cfg))" and "body ev = Some b"
    and "split CHR '' '' b = ''!balance'' # rest"
    and "decimals cfg = 12" and "unit cfg = ''UNIT''"
    and "getBalance env = Fulfilled \<lparr>balance = Str ''5000000000000''\<rparr>"
  shows "replies (fst (onRoomTimeline cfg env ev))
           = [(getRoomId ev, ''The faucet has 5 UNITs remaining.'')]
         \<and> requests (fst (onRoomTimeline cfg env ev)) = [HttpGet ''/balance'']"
  by (simp add: balance_event [OF assms(1-7)] balanceCommand_def balanceThen_def
      sendMessage_def assms(8-10) five_units)

theorem balance_reply_example_witness:
  "replies (fst (onRoomTimeline exampleConfig
                   (exampleBackend (Fulfilled \<lparr>balance = Str ''5000000000000''\<rparr>) (Rejected []))
                   (message ''@alice:matrix.org'' ''!balance'')))
     = [(''!room:matrix.org'', ''The faucet has 5 UNITs remaining.'')]
   \<and> requests (fst (onRoomTimeline exampleConfig
                   (exampleBackend (Fulfilled \<lparr>balance = Str ''5000000000000''\<rparr>) (Rejected []))
                   (message ''@alice:matrix.org'' ''!balance'')))
     = [HttpGet ''/balance'']"
proof -
  let ?ev = "message ''@alice:matrix.org'' ''!balance''"
  let ?env = "exampleBackend (Fulfilled \<lparr>balance = Str ''5000000000000''\<rparr>) (Rejected [])"
  have 1: "getType ?ev = ''m.room.message''" by (simp add: message_def)
  have 2: "getSender ?ev = Some ''@alice:matrix.org''" by (simp add: message_def)
  have 3: "''@alice:matrix.org'' \<noteq> []" by simp
  have 4: "''@alice:matrix.org'' \<noteq> botUserId exampleConfig" by (simp add: exampleConfig_def)
  have 5: "''@alice:matrix.org'' \<notin> set (ignoreList (FAUCET_IGNORE_LIST exampleConfig))"
    by code_simp
  have 6: "body ?ev = Some ''!balance''" by (simp add: message_def)
  have 7: "split CHR '' '' ''!balance'' = ''!balance'' # []" by simp
  have 8: "decimals exampleConfig = 12" by (simp add: exampleConfig_def)
  have 9: "unit exampleConfig = ''UNIT''" by (simp add: exampleConfig_def)
  have 10: "getBalance ?env = Fulfilled \<lparr>balance = Str ''5000000000000''\<rparr>"
    by (simp add: exampleBackend_def)
  from balance_reply_example [OF 1 2 3 4 5 6 7 8 9 10] show ?thesis
    by (simp add: message_def)
qed

text \<open>
  Claim C7. A message whose first space-delimited token does not start with \<^verbatim>\<open>!\<close> is
  answered with no chat message and causes no HTTP request, whoever sent it.
\<close>

theorem non_command_ignored:
  assumes "body ev = Some b" and "split CHR '' '' b = action # rest"
    and "\<not> startsWith action ''!''"
  shows "replies (fst (onRoomTimeline cfg env ev)) = []
         \<and> requests (fst (onRoomTimeline cfg env ev)) = []"
  using assms by (simp add: onRoomTimeline_def command_other split: option.splits)

theorem non_command_ignored_witness:
  "replies (fst (onRoomTimeline exampleConfig (exampleBackend (Rejected []) (Rejected []))
                   (message ''@alice:matrix.org'' ''hello !help''))) = []
   \<and> requests (fst (onRoomTimeline exampleConfig (exampleBackend (Rejected []) (Rejected []))
                       (message ''@alice:matrix.org'' ''hello !help''))) = []"
proof -
  let ?ev = "message ''@alice:matrix.org'' ''hello !help''"
  have 1: "body ?ev = Some ''hello !help''" by (simp add: message_def)
  have 2: "split CHR '' '' ''hello !help'' = ''hello'' # [''!help'']" by simp
  have 3: "\<not> startsWith ''hello'' ''!''" by (simp add: startsWith_def)
  from non_command_ignored [OF 1 2 3] show ?thesis .
qed

text \<open>
  Claim C8. Parsing \<^verbatim>\<open>FAUCET_IGNORE_LIST\<close> removes only the first double quote of each
  comma-separated entry: an entry is its text before the first quote followed by all of
  its text after that quote, for a value that is one entry and, entry by entry, for a
  value with commas. An entry wrapped in two quotes therefore keeps the closing quote and
  differs from the bare identifier, which is then not in the list; and the empty value
  gives the list holding the empty string, not the empty list.
\<close>

theorem ignoreList_removes_first_quote_only:
  "ignoreList [] = [[]]
   \<and> (\<forall>a. CHR '','' \<notin> set a \<longrightarrow>
         ignoreList a
           = [takeWhile (\<lambda>x. x \<noteq> quote) a @ drop 1 (dropWhile (\<lambda>x. x \<noteq> quote) a)])
   \<and> (\<forall>a rest. CHR '','' \<notin> set a \<longrightarrow>
         ignoreList (a @ CHR '','' # rest)
           = (takeWhile (\<lambda>x. x \<noteq> quote) a @ drop 1 (dropWhile (\<lambda>x. x \<noteq> quote) a))
             # ignoreList rest)
   \<and> (\<forall>a. CHR '','' \<notin> set a \<and> quote \<notin> set a \<longrightarrow>
         ignoreList (quote # a @ [quote]) = [a @ [quote]]
         \<and> a \<notin> set (ignoreList (quote # a @ [quote])))"
proof (intro conjI allI impI)
  show "ignoreList [] = [[]]"
    by (simp add: ignoreList_def)
next
  fix a :: string
  assume "CHR '','' \<notin> set a"
  then show "ignoreList a
      = [takeWhile (\<lambda>x. x \<noteq> quote) a @ drop 1 (dropWhile (\<lambda>x. x \<noteq> quote) a)]"
    by (simp add: ignoreList_def split_no_separator remove1_first_occurrence)
next
  fix a rest :: string
  assume "CHR '','' \<notin> set a"
  then show "ignoreList (a @ CHR '','' # rest)
      = (takeWhile (\<lambda>x. x \<noteq> quote) a @ drop 1 (dropWhile (\<lambda>x. x \<noteq> quote) a))
        # ignoreList rest"
    by (simp add: ignoreList_def split_at_separator remove1_first_occurrence)
next
  fix a :: string
  assume a: "CHR '','' \<notin> set a \<and> quote \<notin> set a"
  then have "CHR '','' \<notin> set (quote # a @ [quote])"
    by (simp add: quote_def)
  then have "split CHR '','' (quote # a @ [quote]) = [quote # a @ [quote]]"
    by (rule split_no_separator)
  then have "ignoreList (quote # a @ [quote]) = [remove1 quote (quote # a @ [quote])]"
    by (simp only: ignoreList_def list.map)
  then show l: "ignoreList (quote # a @ [quote]) = [a @ [quote]]"
    by simp
  show "a \<notin> set (ignoreList (quote # a @ [quote]))"
    by (simp add: l)
qed

theorem ignoreList_removes_first_quote_only_witness:
  "ignoreList (quote # ''@user:server'' @ [quote]) = [''@user:server'' @ [quote]]
   \<and> ''@user:server'' \<notin> set (ignoreList (quote # ''@user:server'' @ [quote]))
   \<and> ignoreList (''a'' @ CHR '','' # ''b'')
       = (takeWhile (\<lambda>x. x \<noteq> quote) ''a'' @ drop 1 (dropWhile (\<lambda>x. x \<noteq> quote) ''a''))
         # ignoreList ''b''
   \<and> ignoreList ''@spam:matrix.org'' = [''@spam:matrix.org'']"
proof -
  have h: "CHR '','' \<notin> set ''@user:server'' \<and> quote \<notin> set ''@user:server''"
    by (simp add: quote_def)
  have k: "CHR '','' \<notin> set ''a''"
    by simp
  have j: "CHR '','' \<notin> set ''@spam:matrix.org''"
    by simp
  from ignoreList_removes_first_quote_only
  have 0: "\<forall>a. CHR '','' \<notin> set a \<longrightarrow>
         ignoreList a
           = [takeWhile (\<lambda>x. x \<noteq> quote) a @ drop 1 (dropWhile (\<lambda>x. x \<noteq> quote) a)]"
    and 1: "\<forall>a rest. CHR '','' \<notin> set a \<longrightarrow>
         ignoreList (a @ CHR '','' # rest)
           = (takeWhile (\<lambda>x. x \<noteq> quote) a @ drop 1 (dropWhile (\<lambda>x. x \<noteq> quote) a))
             # ignoreList rest"
    and 2: "\<forall>a. CHR '','' \<notin> set a \<and> quote \<notin> set a \<longrightarrow>
         ignoreList (quote # a @ [quote]) = [a @ [quote]]
         \<and> a \<notin> set (ignoreList (quote # a @ [quote]))"
    by blast+
  from 0 [rule_format, OF j] have 3: "ignoreList ''@spam:matrix.org'' = [''@spam:matrix.org'']"
    by (simp add: quote_def)
  from 2 [rule_format, OF h] 1 [rule_format, OF k] 3 show ?thesis
    by blast
qed

text \<open>
  Claim C9. From a sender whose identifier ends with \<^verbatim>\<open>:matrix.parity.io\<close>, a third token
  that \<^verbatim>\<open>Number\<close> does not read is used all the same: the amount of the request is
  \<^verbatim>\<open>NaN\<close>.
\<close>

theorem drip_override_not_validated:
  assumes "getType ev = ''m.room.message''" and "getSender ev = Some sndr"
    and "sndr \<noteq> []" and "sndr \<noteq> botUserId cfg"
    and "sndr \<notin> set (ignoreList (FAUCET_IGNORE_LIST cfg))" and "body ev = Some b"
    and "split CHR '' '' b = ''!drip'' # a0 # a1 # rest" and "a0 \<noteq> []" and "a1 \<noteq> []"
    and "decodeAddress env (takeWhile (\<lambda>x. x \<noteq> CHR '':'') (trim a0))"
    and "endsWith sndr '':matrix.parity.io''" and "StringToNumber a1 = NaN"
  shows "\<exists>req. requests (fst (onRoomTimeline cfg env ev)) = [HttpPost ''/bot-endpoint'' req]
           \<and> amount req = NaN"
  using assms(9,11,12)
  by (simp add: drip_requests [OF assms(1-8,10)] dripAmountOf_def)

theorem drip_override_not_validated_witness:
  "\<exists>req. requests (fst (onRoomTimeline exampleConfig
                   (exampleBackend (Rejected []) (Rejected []))
                   (message ''@alice:matrix.parity.io'' ''!drip 5GrwvaEF5zXb26Fz9rcQpDWS57CtERHpNehXCPcNoHGKutQY lots''))) = [HttpPost ''/bot-endpoint'' req]
      \<and> amount req = NaN"
proof -
  let ?env = "exampleBackend (Rejected []) (Rejected [])"
  let ?ev = "message ''@alice:matrix.parity.io'' ''!drip 5GrwvaEF5zXb26Fz9rcQpDWS57CtERHpNehXCPcNoHGKutQY lots''"
  have 1: "getType ?ev = ''m.room.message''" by (simp add: message_def)
  have 2: "getSender ?ev = Some ''@alice:matrix.parity.io''" by (simp add: message_def)
  have 3: "''@alice:matrix.parity.io'' \<noteq> []" by simp
  have 4: "''@alice:matrix.parity.io'' \<noteq> botUserId exampleConfig" by (simp add: exampleConfig_def)
  have 5: "''@alice:matrix.parity.io'' \<notin> set (ignoreList (FAUCET_IGNORE_LIST exampleConfig))"
    by code_simp
  have 6: "body ?ev = Some ''!drip 5GrwvaEF5zXb26Fz9rcQpDWS57CtERHpNehXCPcNoHGKutQY lots''" by (simp add: message_def)
  have 7: "split CHR '' '' ''!drip 5GrwvaEF5zXb26Fz9rcQpDWS57CtERHpNehXCPcNoHGKutQY lots'' = ''!drip'' # ''5GrwvaEF5zXb26Fz9rcQpDWS57CtERHpNehXCPcNoHGKutQY'' # ''lots'' # []" by simp
  have a: "''5GrwvaEF5zXb26Fz9rcQpDWS57CtERHpNehXCPcNoHGKutQY'' \<noteq> []" "''lots'' \<noteq> []" by simp_all
  have d: "decodeAddress ?env (takeWhile (\<lambda>x. x \<noteq> CHR '':'') (trim ''5GrwvaEF5zXb26Fz9rcQpDWS57CtERHpNehXCPcNoHGKutQY''))"
    by code_simp
  have t: "endsWith ''@alice:matrix.parity.io'' '':matrix.parity.io''" by code_simp
  have n: "StringToNumber ''lots'' = NaN" by code_simp
  from drip_override_not_validated [OF 1 2 3 4 5 6 7 a d t n] show ?thesis .
qed




end
